theory Spec2Isabelle
  imports Main "HOL-Library.Word"
begin

section \<open>Python values, errors and effects\<close>

text \<open>
  The values that reach the \<open>api_key\<close> attribute: whatever the caller passes as
  \<open>api_key\<close>, or what \<open>json.load\<close> and \<open>response.json()\<close> return. A Python float is
  kept as its 64 IEEE bits; a dict as an association list (the keys of a parsed JSON
  object are strings). Strings are lists of characters standing for the code points
  below 256.
\<close>

datatype pyval =
    PNone
  | PBool bool
  | PInt int
  | PFloat "64 word"
  | PStr string
  | PList "pyval list"
  | PDict "(string \<times> pyval) list"

text \<open>Python's truth value, as \<open>not x\<close> and \<open>x or y\<close> test it. A float is false
  exactly when it is \<open>0.0\<close> or \<open>-0.0\<close>: all bits below the sign bit are clear.\<close>

fun truthy :: "pyval \<Rightarrow> bool" where
  "truthy PNone = False"
| "truthy (PBool b) = b"
| "truthy (PInt i) = (i \<noteq> 0)"
| "truthy (PFloat w) = (take_bit 63 w \<noteq> 0)"
| "truthy (PStr s) = (s \<noteq> [])"
| "truthy (PList xs) = (xs \<noteq> [])"
| "truthy (PDict kvs) = (kvs \<noteq> [])"

fun is_str :: "pyval \<Rightarrow> bool" where
  "is_str (PStr s) = True"
| "is_str v = False"

text \<open>\<open>d.get(k)\<close> on a dict: the value, or \<open>None\<close>.\<close>

definition dict_get :: "(string \<times> pyval) list \<Rightarrow> string \<Rightarrow> pyval" where
  "dict_get kvs k = (case map_of kvs k of None \<Rightarrow> PNone | Some v \<Rightarrow> v)"

text \<open>The exceptions the program raises or lets through, each with its message.
  \<open>RequestException\<close> and \<open>ConnectionError\<close> are those of \<open>requests.exceptions\<close>.\<close>

datatype error =
    TypeError string
  | AttributeError string
  | NotImplementedError string
  | FileNotFoundError string
  | IOError string
  | ValueError string
  | JSONDecodeError string
  | KeyError string
  | ValidationError string
  | RequestException string
  | ConnectionError string

text \<open>What \<open>except IOError\<close> catches: \<open>IOError\<close> is \<open>OSError\<close>, of which
  \<open>FileNotFoundError\<close> and the exceptions of \<open>requests\<close> are subclasses.\<close>

fun is_IOError :: "error \<Rightarrow> bool" where
  "is_IOError (IOError m) = True"
| "is_IOError (FileNotFoundError m) = True"
| "is_IOError (RequestException m) = True"
| "is_IOError (ConnectionError m) = True"
| "is_IOError e = False"

datatype logger = Logger string

text \<open>Everything the program does to the outside, in the order it does it: log records,
  \<open>Path.is_file\<close> checks, \<open>open\<close> calls and HTTP POST requests (URL, username,
  password).\<close>

datatype event =
    LogInfo logger string
  | LogWarning logger string
  | LogError logger error
  | IsFile string
  | OpenFile string
  | HttpPost string string string

text \<open>A computation ends in an exception or a value, and has emitted events.\<close>

type_synonym 'a io = "(error + 'a) \<times> event list"

definition io_return :: "'a \<Rightarrow> 'a io" where
  "io_return x = (Inr x, [])"

definition io_raise :: "error \<Rightarrow> 'a io" where
  "io_raise e = (Inl e, [])"

definition io_bind :: "'a io \<Rightarrow> ('a \<Rightarrow> 'b io) \<Rightarrow> 'b io" where
  "io_bind m f =
     (case m of
        (Inl e, t) \<Rightarrow> (Inl e, t)
      | (Inr x, t) \<Rightarrow> (case f x of (r, t') \<Rightarrow> (r, t @ t')))"

section \<open>The libraries and the outside world\<close>

text \<open>
  The HTTP response, as far as the program reads it: the status code,
  \<open>response.text\<close>, and \<open>response.json()\<close> (\<open>None\<close> when the body is not JSON
  and the call raises).
\<close>

record response =
  status_code :: nat
  resp_text :: string
  resp_json :: "pyval option"

text \<open>
  \<open>response.ok\<close> of \<open>requests\<close>: it is false when \<open>raise_for_status()\<close> raises,
  which it does for the statuses from 400 to 599. Every other status is ok, also the
  ones outside 2xx (1xx, 3xx, 600 and above).
\<close>

definition resp_ok :: "response \<Rightarrow> bool" where
  "resp_ok r = (\<not> (400 \<le> status_code r \<and> status_code r < 600))"

text \<open>
  The file system, the network and the library functions the program calls are
  parameters:
  \<^item> \<open>os_is_file p\<close>: what \<open>Path(p).is_file()\<close> returns;
  \<^item> \<open>os_open p\<close>: \<open>open(p, 'r')\<close> raises, or gives a file whose \<open>read()\<close> raises or
    gives the text;
  \<^item> \<open>json_loads s\<close>: the document \<open>json.load\<close> parses from the text \<open>s\<close>, \<open>None\<close> when
    it raises;
  \<^item> \<open>validators_url u\<close>: whether \<open>validators.url(u)\<close> is true;
  \<^item> \<open>requests_post url username password\<close>: \<open>requests.post\<close> raises, or gives a
    response.
\<close>

record world =
  os_is_file :: "string \<Rightarrow> bool"
  os_open :: "string \<Rightarrow> error + (error + string)"
  json_loads :: "string \<Rightarrow> pyval option"
  validators_url :: "string \<Rightarrow> bool"
  requests_post :: "string \<Rightarrow> string \<Rightarrow> string \<Rightarrow> error + response"

subsection \<open>\<open>str.split\<close>, \<open>str.strip\<close> and \<open>Path.suffix\<close>\<close>

text \<open>\<open>s.split(c)\<close> for a one-character separator; \<open>''.split(c)\<close> is \<open>['']\<close>.\<close>

fun split_on :: "char \<Rightarrow> string \<Rightarrow> string list" where
  "split_on c [] = [[]]"
| "split_on c (x # xs) =
     (if x = c then [] # split_on c xs
      else (case split_on c xs of
              [] \<Rightarrow> [[x]]
            | w # ws \<Rightarrow> (x # w) # ws))"

text \<open>The whitespace of \<open>str.strip()\<close> among the code points below 256.\<close>

definition py_isspace :: "char \<Rightarrow> bool" where
  "py_isspace c = (of_char c \<in> {9, 10, 11, 12, 13, 28, 29, 30, 31, 32, 133, 160 :: nat})"

definition py_strip :: "string \<Rightarrow> string" where
  "py_strip s = rev (dropWhile py_isspace (rev (dropWhile py_isspace s)))"

text \<open>
  \<open>Path(p).name\<close> on a POSIX path: the last component, empty components and \<open>.\<close>
  dropped. \<open>Path(p).suffix\<close>: with \<open>i = name.rfind('.')\<close>, the text from \<open>i\<close> on when
  \<open>0 < i < len(name) - 1\<close>, else the empty string.
\<close>

definition path_name :: "string \<Rightarrow> string" where
  "path_name p =
     (case filter (\<lambda>c. c \<noteq> [] \<and> c \<noteq> ''.'') (split_on CHR ''/'' p) of
        [] \<Rightarrow> []
      | c # cs \<Rightarrow> last (c # cs))"

definition path_suffix :: "string \<Rightarrow> string" where
  "path_suffix p =
     (let name = path_name p;
          ext = rev (takeWhile (\<lambda>c. c \<noteq> CHR ''.'') (rev name))
      in if CHR ''.'' \<in> set name \<and> length ext + 1 < length name \<and> ext \<noteq> []
         then CHR ''.'' # ext else [])"

subsection \<open>Locations\<close>

text \<open>
  A key location is \<open>None\<close>, a \<open>str\<close> or a \<open>Path\<close>. A \<open>Path\<close> is always true; a
  \<open>str\<close> is true when it is not empty. \<open>Path(x)\<close> raises \<open>TypeError\<close> on \<open>None\<close>
  (with this message up to CPython 3.11, with another one since). A \<open>Path\<close> is kept
  as the string it was built from.
\<close>

datatype location = NoLoc | StrLoc string | PathLoc string

fun truthy_loc :: "location \<Rightarrow> bool" where
  "truthy_loc NoLoc = False"
| "truthy_loc (StrLoc s) = (s \<noteq> [])"
| "truthy_loc (PathLoc p) = True"

fun loc_str :: "location \<Rightarrow> string" where
  "loc_str NoLoc = []"
| "loc_str (StrLoc s) = s"
| "loc_str (PathLoc p) = p"

fun Path :: "location \<Rightarrow> error + string" where
  "Path NoLoc = Inl (TypeError ''expected str, bytes or os.PathLike object, not NoneType'')"
| "Path (StrLoc s) = Inr s"
| "Path (PathLoc p) = Inr p"

text \<open>\<open>x.suffix\<close>: only a \<open>Path\<close> has the attribute.\<close>

fun loc_suffix :: "location \<Rightarrow> error + string" where
  "loc_suffix (PathLoc p) = Inr (path_suffix p)"
| "loc_suffix l = Inl (AttributeError ''suffix'')"

section \<open>Keyword arguments and the instance\<close>

text \<open>
  The keyword arguments the constructors read. \<open>None\<close> is a keyword that was not
  passed (\<open>NoLoc\<close> for the location); \<open>kw_api_key = Some PNone\<close> and
  \<open>kw_file_mode = Some PNone\<close> are an explicit \<open>None\<close>.
\<close>

record kwargs =
  kw_logger :: "logger option"
  kw_api_key :: "pyval option"
  kw_api_key_location :: location
  kw_file_mode :: "pyval option"
  kw_json_key :: "string option"
  kw_username :: "string option"
  kw_password :: "string option"

definition no_kwargs :: kwargs where
  "no_kwargs =
     \<lparr>kw_logger = None, kw_api_key = None, kw_api_key_location = NoLoc,
      kw_file_mode = None, kw_json_key = None, kw_username = None, kw_password = None\<rparr>"

text \<open>\<open>kwargs.get(k)\<close> and \<open>kwargs.get(k, default)\<close>.\<close>

definition kwargs_get :: "pyval option \<Rightarrow> pyval" where
  "kwargs_get v = (case v of None \<Rightarrow> PNone | Some x \<Rightarrow> x)"

definition kwargs_get_default :: "pyval option \<Rightarrow> pyval \<Rightarrow> pyval" where
  "kwargs_get_default v d = (case v of None \<Rightarrow> d | Some x \<Rightarrow> x)"

text \<open>The truth value of an optional string, and the string itself.\<close>

fun opt_truthy :: "string option \<Rightarrow> bool" where
  "opt_truthy None = False"
| "opt_truthy (Some s) = (s \<noteq> [])"

fun opt_str :: "string option \<Rightarrow> string" where
  "opt_str None = []"
| "opt_str (Some s) = s"

text \<open>
  The attributes of an instance. \<open>logger\<close> is \<open>None\<close> until
  \<open>_initialize_logger\<close> assigns it: reading it before raises \<open>AttributeError\<close>.
  The other attributes are assigned before they are read, and hold a placeholder
  until then.
\<close>

record obj =
  logger :: "logger option"
  api_key :: pyval
  api_key_location :: location
  file_mode_attr :: pyval
  json_key_attr :: "string option"
  base_url_attr :: string
  create_key_endpoint_attr :: string
  full_url_attr :: string

definition new_obj :: obj where
  "new_obj =
     \<lparr>logger = None, api_key = PNone, api_key_location = NoLoc, file_mode_attr = PNone,
      json_key_attr = None, base_url_attr = [], create_key_endpoint_attr = [],
      full_url_attr = []\<rparr>"

datatype cls = Base_cls | File_cls | Remote_cls

fun class_name :: "cls \<Rightarrow> string" where
  "class_name Base_cls = ''_BaseAPIKey''"
| "class_name File_cls = ''APIKeyFromFile''"
| "class_name Remote_cls = ''RemoteAPIKey''"

definition DEFAULT_LOGGER_NAME :: string where
  "DEFAULT_LOGGER_NAME = ''dummy_logger''"

definition VALID_FILE_MODES :: "pyval list" where
  "VALID_FILE_MODES = [PStr ''text'', PStr ''json'']"

definition DEFAULT_FILE_MODE :: pyval where
  "DEFAULT_FILE_MODE = PStr ''text''"

definition io_of :: "error + 'a \<Rightarrow> 'a io" where
  "io_of r = (r, [])"

text \<open>\<open>self.logger.info(..)\<close>, \<open>.warning(..)\<close>, \<open>.error(e, exc_info=True)\<close>.\<close>

definition log_event :: "obj \<Rightarrow> (logger \<Rightarrow> event) \<Rightarrow> unit io" where
  "log_event self ev =
     (case logger self of
        None \<Rightarrow> io_raise (AttributeError ''logger'')
      | Some lg \<Rightarrow> (Inr (), [ev lg]))"

section \<open>\<open>APIKeyFromFile\<close>\<close>

text \<open>The property \<open>file_mode\<close> (lines 144-152): the mode when it is a valid one,
  else \<open>None\<close>; a warning when the mode is \<open>json\<close> and the suffix is not (the
  message then prints the mode as \<open>json\<close>).\<close>

definition file_mode :: "obj \<Rightarrow> pyval io" where
  "file_mode self =
     (if truthy (file_mode_attr self) \<and> file_mode_attr self \<in> set VALID_FILE_MODES then
        io_bind
          (if file_mode_attr self = PStr ''json'' then
             io_bind (io_of (loc_suffix (api_key_location self))) (\<lambda>sfx.
               if PStr (last (split_on CHR ''.'' sfx)) \<noteq> file_mode_attr self then
                 log_event self (\<lambda>lg. LogWarning lg
                   (''File mode and file path suffix do not match, (''
                    @ last (split_on CHR ''.'' sfx) @ '' and json) this could cause issues.''))
               else io_return ())
           else io_return ())
          (\<lambda>_. io_return (file_mode_attr self))
      else io_return PNone)"

text \<open>\<open>_ensure_key_location_is_set\<close> (lines 163-178), which is all that
  \<open>_prep_for_fetch\<close> does; \<open>dflt\<close> is the class attribute
  \<open>DEFAULT_KEY_LOCATION\<close>.\<close>

definition ensure_key_location_is_set :: "location \<Rightarrow> obj \<Rightarrow> obj io" where
  "ensure_key_location_is_set dflt self =
     (if \<not> truthy_loc (api_key_location self) then
        (if \<not> truthy_loc dflt then
           io_raise (AttributeError
             ''api_key_location or api_key were not provided and DEFAULT_KEY_LOCATION not set.'')
         else io_return (self\<lparr>api_key_location := dflt\<rparr>))
      else io_return self)"

text \<open>\<open>_raise_key_file_not_found_error\<close> (lines 180-189): raise, log, raise again.\<close>

definition raise_key_file_not_found_error :: "obj \<Rightarrow> 'a io" where
  "raise_key_file_not_found_error self =
     io_bind (log_event self (\<lambda>lg. LogError lg (FileNotFoundError ''key file not found'')))
       (\<lambda>_. io_raise (FileNotFoundError ''key file not found''))"

definition check_is_file :: "world \<Rightarrow> location \<Rightarrow> bool io" where
  "check_is_file w l =
     io_bind (io_of (Path l)) (\<lambda>p. (Inr (os_is_file w p), [IsFile p]))"

definition open_file :: "world \<Rightarrow> location \<Rightarrow> (error + string) io" where
  "open_file w l = (os_open w (loc_str l), [OpenFile (loc_str l)])"

text \<open>\<open>json.load(f)\<close>: read the file, parse the text.\<close>

definition json_load :: "world \<Rightarrow> error + string \<Rightarrow> pyval io" where
  "json_load w f =
     io_bind (io_of f) (\<lambda>s.
       case json_loads w s of
         None \<Rightarrow> io_raise (JSONDecodeError ''Expecting value'')
       | Some d \<Rightarrow> io_return d)"

text \<open>\<open>doc[key]\<close> for a string key: only a dict can be subscripted by a string.\<close>

fun py_getitem :: "pyval \<Rightarrow> string \<Rightarrow> error + pyval" where
  "py_getitem (PDict kvs) k =
     (case map_of kvs k of None \<Rightarrow> Inl (KeyError k) | Some v \<Rightarrow> Inr v)"
| "py_getitem d k = Inl (TypeError ''indices must be integers or the object is not subscriptable'')"

text \<open>The body of the \<open>with\<close> statement (lines 221-226). The property is read
  again for the \<open>elif\<close>; when neither comparison holds the function falls off its
  end and returns \<open>None\<close>.\<close>

definition read_key :: "world \<Rightarrow> obj \<Rightarrow> error + string \<Rightarrow> pyval io" where
  "read_key w self f =
     io_bind (file_mode self) (\<lambda>m.
       if m = PStr ''text'' then io_bind (io_of f) (\<lambda>s. io_return (PStr (py_strip s)))
       else io_bind (file_mode self) (\<lambda>m'.
         if m' = PStr ''json'' then
           (if opt_truthy (json_key_attr self) then
              io_bind (json_load w f) (\<lambda>d. io_of (py_getitem d (opt_str (json_key_attr self))))
            else json_load w f)
         else io_return PNone))"

text \<open>\<open>except IOError as e: self.logger.error(e, exc_info=True); raise e\<close>.\<close>

definition except_IOError :: "obj \<Rightarrow> 'a io \<Rightarrow> 'a io" where
  "except_IOError self m =
     (case m of
        (Inl e, t) \<Rightarrow>
          (if is_IOError e then
             (case log_event self (\<lambda>lg. LogError lg e) of
                (Inl e', t') \<Rightarrow> (Inl e', t @ t')
              | (Inr u, t') \<Rightarrow> (Inl e, t @ t'))
           else (Inl e, t))
      | (Inr x, t) \<Rightarrow> (Inr x, t))"

text \<open>\<open>APIKeyFromFile._fetch_api_key\<close> (lines 191-229). The \<open>return None\<close> of
  line 217 follows a call that always raises, and is never reached.\<close>

definition APIKeyFromFile_fetch_api_key :: "world \<Rightarrow> obj \<Rightarrow> location \<Rightarrow> pyval io" where
  "APIKeyFromFile_fetch_api_key w self key_location =
     io_bind
       (io_bind
          (if truthy_loc key_location then check_is_file w key_location else io_return False)
          (\<lambda>b1.
             if b1 then io_return key_location
             else io_bind
               (if truthy_loc (api_key_location self)
                then check_is_file w (api_key_location self) else io_return False)
               (\<lambda>b2.
                  if b2 then io_return (api_key_location self)
                  else raise_key_file_not_found_error self)))
       (\<lambda>key_path.
          except_IOError self (io_bind (open_file w key_path) (\<lambda>f. read_key w self f)))"

section \<open>\<open>RemoteAPIKey\<close>: the fetch\<close>

text \<open>\<open>RemoteAPIKey._fetch_api_key\<close> (lines 329-352). The handler catches
  \<open>requests.exceptions.ConnectionError\<close> only, and raises a new one around it.\<close>

definition except_ConnectionError :: "'a io \<Rightarrow> 'a io" where
  "except_ConnectionError m =
     (case m of
        (Inl (ConnectionError msg), t) \<Rightarrow> (Inl (ConnectionError msg), t)
      | (r, t) \<Rightarrow> (r, t))"

definition RemoteAPIKey_fetch_api_key :: "world \<Rightarrow> obj \<Rightarrow> string \<Rightarrow> string \<Rightarrow> pyval io" where
  "RemoteAPIKey_fetch_api_key w self username password =
     except_ConnectionError
       (io_bind
          (requests_post w (full_url_attr self) username password,
           [HttpPost (full_url_attr self) username password])
          (\<lambda>r.
             if resp_ok r then
               (case resp_json r of
                  None \<Rightarrow> io_raise (JSONDecodeError ''Expecting value'')
                | Some v \<Rightarrow> io_return v)
             else io_raise (RequestException (resp_text r))))"

section \<open>\<open>_BaseAPIKey\<close>\<close>

text \<open>The calls \<open>self._prep_for_fetch()\<close> and \<open>self._fetch_api_key()\<close> of
  \<open>_BaseAPIKey.__init__\<close>, dispatched on the class of \<open>self\<close>. The second passes
  no argument: \<open>RemoteAPIKey._fetch_api_key\<close> has two required parameters, and the
  call raises \<open>TypeError\<close>.\<close>

fun prep_for_fetch :: "cls \<Rightarrow> location \<Rightarrow> obj \<Rightarrow> obj io" where
  "prep_for_fetch Base_cls dflt self =
     io_raise (NotImplementedError ''this is meant to be implemented by a subclass'')"
| "prep_for_fetch File_cls dflt self = ensure_key_location_is_set dflt self"
| "prep_for_fetch Remote_cls dflt self = io_return self"

fun fetch_api_key :: "world \<Rightarrow> cls \<Rightarrow> obj \<Rightarrow> pyval io" where
  "fetch_api_key w Base_cls self =
     io_raise (NotImplementedError ''this is meant to be implemented by a subclass'')"
| "fetch_api_key w File_cls self = APIKeyFromFile_fetch_api_key w self NoLoc"
| "fetch_api_key w Remote_cls self =
     io_raise (TypeError
       ''_fetch_api_key() missing 2 required positional arguments: username and password'')"

definition initialize_logger :: "obj \<Rightarrow> logger option \<Rightarrow> obj" where
  "initialize_logger self lg =
     self\<lparr>logger := Some (case lg of None \<Rightarrow> Logger DEFAULT_LOGGER_NAME | Some l \<Rightarrow> l)\<rparr>"

text \<open>\<open>_BaseAPIKey.__init__\<close> (lines 45-54).\<close>

definition BaseAPIKey_init :: "world \<Rightarrow> cls \<Rightarrow> location \<Rightarrow> obj \<Rightarrow> kwargs \<Rightarrow> obj io" where
  "BaseAPIKey_init w c dflt self kw =
     (let self1 = initialize_logger self (kw_logger kw);
          self2 = self1\<lparr>api_key := kwargs_get (kw_api_key kw)\<rparr>
      in io_bind
           (if \<not> truthy (api_key self2) then
              io_bind (prep_for_fetch c dflt self2) (\<lambda>self3.
                io_bind (fetch_api_key w c self3) (\<lambda>k. io_return (self3\<lparr>api_key := k\<rparr>)))
            else io_return self2)
           (\<lambda>self4.
              io_bind
                (log_event self4 (\<lambda>lg. LogInfo lg (class_name c @ '' Initialization complete.'')))
                (\<lambda>_. io_return self4)))"

section \<open>The constructors of the two providers\<close>

text \<open>\<open>APIKeyFromFile.__init__\<close> (lines 131-142). Line 140 assigns \<open>_file_mode\<close>
  whatever the branches above it did.\<close>

definition APIKeyFromFile_init :: "world \<Rightarrow> location \<Rightarrow> kwargs \<Rightarrow> obj io" where
  "APIKeyFromFile_init w dflt kw =
     io_bind (io_of (Path (kw_api_key_location kw))) (\<lambda>p.
       let self0 = new_obj\<lparr>api_key_location := PathLoc p\<rparr> in
       io_bind
         (if path_suffix p = ''.json'' then io_return (self0\<lparr>file_mode_attr := PStr ''json''\<rparr>)
          else if path_suffix p = ''.txt'' then io_return (self0\<lparr>file_mode_attr := PStr ''text''\<rparr>)
          else io_bind
            (log_event self0 (\<lambda>lg. LogWarning lg
               (''File extension for '' @ p @ '' is not .json or .txt. ''
                @ ''Assuming text file mode if file_mode not provided.'')))
            (\<lambda>_. io_return self0))
         (\<lambda>self1.
            let self2 = self1\<lparr>file_mode_attr := kwargs_get_default (kw_file_mode kw) DEFAULT_FILE_MODE\<rparr>;
                self3 = self2\<lparr>json_key_attr := kw_json_key kw\<rparr>
            in BaseAPIKey_init w File_cls dflt self3 kw))"

text \<open>
  The constructor of \<open>validators.ValidationError\<close> (validators 0.21 and later), called
  with the positional arguments \<open>args\<close>. Its parameters are \<open>function\<close>, \<open>arg_dict\<close>
  and an optional \<open>message\<close>: with fewer than two arguments the call itself raises
  \<open>TypeError\<close>, and no \<open>ValidationError\<close> is built.
\<close>

definition validators_ValidationError :: "pyval list \<Rightarrow> error + error" where
  "validators_ValidationError args =
     (if length args = 0 then
        Inl (TypeError
          ''ValidationError.__init__() missing 2 required positional arguments: function and arg_dict'')
      else if length args = 1 then
        Inl (TypeError
          ''ValidationError.__init__() missing 1 required positional argument: arg_dict'')
      else if 3 < length args then
        Inl (TypeError ''ValidationError.__init__() takes from 3 to 4 positional arguments'')
      else Inr (ValidationError (case drop 2 args of [PStr m] \<Rightarrow> m | _ \<Rightarrow> [])))"

text \<open>\<open>raise C(args)\<close>: the call is evaluated first; what it raises, or else the
  exception it builds, is raised.\<close>

definition raise_new :: "error + error \<Rightarrow> 'a io" where
  "raise_new c = (case c of Inl e \<Rightarrow> io_raise e | Inr e \<Rightarrow> io_raise e)"

text \<open>\<open>validated_base_url\<close> (lines 302-320) returns \<open>self._base_url or None\<close>. Line
  319 calls \<open>validators.ValidationError("Invalid URL")\<close>, with one argument.
  \<open>_construct_full_url\<close> formats the URL, and \<open>None\<close> prints as \<open>None\<close>.\<close>

definition validated_base_url :: "world \<Rightarrow> obj \<Rightarrow> string option io" where
  "validated_base_url w self =
     (if base_url_attr self \<noteq> [] \<and> \<not> validators_url w (base_url_attr self) then
        raise_new (validators_ValidationError [PStr ''Invalid URL''])
      else io_return (if base_url_attr self \<noteq> [] then Some (base_url_attr self) else None))"

definition construct_full_url :: "world \<Rightarrow> obj \<Rightarrow> string io" where
  "construct_full_url w self =
     io_bind (validated_base_url w self) (\<lambda>b.
       io_return ((case b of None \<Rightarrow> ''None'' | Some u \<Rightarrow> u) @ ''/''
                  @ create_key_endpoint_attr self))"

text \<open>\<open>RemoteAPIKey.__init__\<close> (lines 277-290). The call of line 290 passes
  \<open>api_key\<close> by name and \<open>**kwargs\<close> with it: a \<open>kwargs\<close> that holds \<open>api_key\<close>
  too makes the call raise \<open>TypeError\<close>.\<close>

definition RemoteAPIKey_init :: "world \<Rightarrow> string \<Rightarrow> string \<Rightarrow> kwargs \<Rightarrow> obj io" where
  "RemoteAPIKey_init w base_url create_key_endpoint kw =
     (let self0 = new_obj\<lparr>base_url_attr := base_url,
                          create_key_endpoint_attr := create_key_endpoint\<rparr>
      in io_bind (construct_full_url w self0) (\<lambda>u.
           let self1 = self0\<lparr>full_url_attr := u\<rparr> in
           io_bind
             (if \<not> opt_truthy (kw_username kw) then io_return PNone
              else if \<not> opt_truthy (kw_password kw) then io_return PNone
              else RemoteAPIKey_fetch_api_key w self1
                     (opt_str (kw_username kw)) (opt_str (kw_password kw)))
             (\<lambda>k.
                let self2 = self1\<lparr>api_key := k\<rparr>;
                    self3 = (case k of
                               PDict kvs \<Rightarrow> self2\<lparr>api_key := dict_get kvs ''api_key''\<rparr>
                             | _ \<Rightarrow> self2)
                in if kw_api_key kw \<noteq> None then
                     io_raise (TypeError
                       ''__init__() got multiple values for keyword argument api_key'')
                   else BaseAPIKey_init w Remote_cls NoLoc self3
                          (kw\<lparr>kw_api_key := Some (api_key self3)\<rparr>))))"

text \<open>The key a caller reads after construction, as \<open>get_api_key\<close> does with
  \<open>cls(**kwargs).api_key\<close> (line 89): the attribute, or the exception the constructor
  raised.\<close>

definition resolved_key :: "obj io \<Rightarrow> error + pyval" where
  "resolved_key r = (case fst r of Inl e \<Rightarrow> Inl e | Inr self \<Rightarrow> Inr (api_key self))"

section \<open>A test fixture\<close>

text \<open>
  A small world to run the program in: three key files, and a server at
  \<open>http://127.0.0.1:5000\<close> that answers the user \<open>andrew\<close> with a document per
  endpoint (status 200, and status 300 at the endpoint \<open>choices\<close>) and everyone else
  with status 401 and the body \<open>bad creds\<close>.
\<close>

definition quoted :: "string \<Rightarrow> string" where
  "quoted s = CHR 0x22 # s @ [CHR 0x22]"

definition test_json_text :: string where
  "test_json_text =
     ''{'' @ quoted ''api_key'' @ '': '' @ quoted ''abc'' @ '', '' @ quoted ''other'' @ '': 1}''"

definition test_json_doc :: pyval where
  "test_json_doc = PDict [(''api_key'', PStr ''abc''), (''other'', PInt 1)]"

definition test_response :: "string \<Rightarrow> string \<Rightarrow> string \<Rightarrow> error + response" where
  "test_response url username password =
     (if username = ''andrew'' \<and> password = ''pw'' then
        (if url = ''http://127.0.0.1:5000/get_api_key'' then
           Inr \<lparr>status_code = 200,
                resp_text = ''{'' @ quoted ''api_key'' @ '': '' @ quoted ''xyz'' @ ''}'',
                resp_json = Some (PDict [(''api_key'', PStr ''xyz'')])\<rparr>
         else if url = ''http://127.0.0.1:5000/bare_key'' then
           Inr \<lparr>status_code = 200, resp_text = quoted ''xyz'', resp_json = Some (PStr ''xyz'')\<rparr>
         else if url = ''http://127.0.0.1:5000/numeric_key'' then
           Inr \<lparr>status_code = 200,
                resp_text = ''{'' @ quoted ''api_key'' @ '': 123}'',
                resp_json = Some (PDict [(''api_key'', PInt 123)])\<rparr>
         else if url = ''http://127.0.0.1:5000/choices'' then
           Inr \<lparr>status_code = 300,
                resp_text = ''{'' @ quoted ''api_key'' @ '': '' @ quoted ''xyz'' @ ''}'',
                resp_json = Some (PDict [(''api_key'', PStr ''xyz'')])\<rparr>
         else if url = ''http://127.0.0.1:5000/no_key'' then
           Inr \<lparr>status_code = 200,
                resp_text = ''{'' @ quoted ''token'' @ '': '' @ quoted ''xyz'' @ ''}'',
                resp_json = Some (PDict [(''token'', PStr ''xyz'')])\<rparr>
         else Inl (ConnectionError ''connection refused''))
      else Inr \<lparr>status_code = 401, resp_text = ''bad creds'', resp_json = None\<rparr>)"

definition test_world :: world where
  "test_world =
     \<lparr>os_is_file = (\<lambda>p. p = ''key.txt'' \<or> p = ''key.json'' \<or> p = ''secret.key''),
      os_open = (\<lambda>p. if p = ''key.txt'' then Inr (Inr (''  secret123'' @ [CHR 0x0A]))
                     else if p = ''key.json'' then Inr (Inr test_json_text)
                     else if p = ''secret.key'' then Inr (Inr (''  secret123'' @ [CHR 0x0A]))
                     else Inl (FileNotFoundError p)),
      json_loads = (\<lambda>s. if s = test_json_text then Some test_json_doc else None),
      validators_url = (\<lambda>u. u = ''http://127.0.0.1:5000''),
      requests_post = test_response\<rparr>"

definition test_credentials :: kwargs where
  "test_credentials = no_kwargs\<lparr>kw_username := Some ''andrew'', kw_password := Some ''pw''\<rparr>"

text \<open>A file provider's instance as \<open>_BaseAPIKey.__init__\<close> hands it to the fetch:
  location, mode and JSON key assigned, the default logger bound.\<close>

definition test_file_obj :: "string \<Rightarrow> pyval \<Rightarrow> string option \<Rightarrow> obj" where
  "test_file_obj p m k =
     new_obj\<lparr>logger := Some (Logger ''dummy_logger''), api_key_location := PathLoc p,
             file_mode_attr := m, json_key_attr := k\<rparr>"

section \<open>Facts about the helpers\<close>

lemmas io_defs = io_bind_def io_return_def io_raise_def io_of_def

lemmas test_defs =
  test_world_def test_response_def test_credentials_def test_file_obj_def test_json_doc_def
  no_kwargs_def new_obj_def DEFAULT_LOGGER_NAME_def DEFAULT_FILE_MODE_def resp_ok_def

lemma file_mode_text:
  assumes "file_mode_attr self = PStr ''text''"
  shows "file_mode self = (Inr (PStr ''text''), [])"
  using assms by (simp add: file_mode_def VALID_FILE_MODES_def io_defs)

lemma file_mode_unrecognized:
  assumes "file_mode_attr self \<noteq> PStr ''text''" and "file_mode_attr self \<noteq> PStr ''json''"
  shows "file_mode self = (Inr PNone, [])"
  using assms by (simp add: file_mode_def VALID_FILE_MODES_def io_defs)

text \<open>The path the fetch opens: the override when it is a file, else the instance's.\<close>

lemma fetch_opens_key_path:
  assumes "key_path = (if truthy_loc key_location \<and> os_is_file w (loc_str key_location)
                       then key_location else api_key_location self)"
    and "truthy_loc key_path" and "os_is_file w (loc_str key_path)"
  shows "fst (APIKeyFromFile_fetch_api_key w self key_location) =
         fst (except_IOError self (io_bind (open_file w key_path) (read_key w self)))"
  using assms
  by (cases key_location; cases "api_key_location self")
     (auto simp add: APIKeyFromFile_fetch_api_key_def check_is_file_def io_defs
      split: prod.splits sum.splits)

lemma read_text:
  assumes "os_open w (loc_str key_path) = Inr (Inr content)"
    and "file_mode_attr self = PStr ''text''"
  shows "fst (except_IOError self (io_bind (open_file w key_path) (read_key w self))) =
         Inr (PStr (py_strip content))"
  using assms
  by (simp add: open_file_def read_key_def file_mode_text except_IOError_def io_defs)

lemma read_json:
  assumes "os_open w (loc_str key_path) = Inr (Inr content)"
    and "file_mode_attr self = PStr ''json''" and "api_key_location self = PathLoc q"
    and "logger self = Some lg" and "json_loads w content = Some doc"
  shows "fst (except_IOError self (io_bind (open_file w key_path) (read_key w self))) =
           (if opt_truthy (json_key_attr self) then py_getitem doc (opt_str (json_key_attr self))
            else Inr doc)"
  using assms
  by (cases "py_getitem doc (opt_str (json_key_attr self))")
     (auto simp add: open_file_def read_key_def file_mode_def VALID_FILE_MODES_def log_event_def
      json_load_def except_IOError_def io_defs)

lemma construct_full_url_ok:
  assumes "base_url_attr self = [] \<or> validators_url w (base_url_attr self)"
  shows "construct_full_url w self =
           (Inr ((if base_url_attr self = [] then ''None'' else base_url_attr self) @ ''/''
                 @ create_key_endpoint_attr self), [])"
  using assms by (auto simp add: construct_full_url_def validated_base_url_def io_defs)

section \<open>The short circuit on a supplied key\<close>

text \<open>
  \<open>_BaseAPIKey.__init__\<close> itself adopts a true \<open>api_key\<close> and calls neither
  \<open>_prep_for_fetch\<close> nor \<open>_fetch_api_key\<close>, whatever the class: the only event is the
  closing log record.
\<close>

lemma BaseAPIKey_init_supplied_key:
  assumes "kw_api_key kw = Some k" and "truthy k"
  shows "BaseAPIKey_init w c dflt self kw =
           (Inr ((initialize_logger self (kw_logger kw))\<lparr>api_key := k\<rparr>),
            [LogInfo (case kw_logger kw of None \<Rightarrow> Logger DEFAULT_LOGGER_NAME | Some l \<Rightarrow> l)
               (class_name c @ '' Initialization complete.'')])"
  using assms
  by (simp add: BaseAPIKey_init_def kwargs_get_def initialize_logger_def log_event_def io_defs
      Let_def)

text \<open>So does the file provider, when it is given a location whose suffix is \<open>.json\<close>
  or \<open>.txt\<close>.\<close>

lemma APIKeyFromFile_init_supplied_key:
  assumes "kw_api_key kw = Some k" and "truthy k"
    and "Path (kw_api_key_location kw) = Inr p"
    and "path_suffix p = ''.json'' \<or> path_suffix p = ''.txt''"
  shows "resolved_key (APIKeyFromFile_init w dflt kw) = Inr k"
    and "snd (APIKeyFromFile_init w dflt kw) =
            [LogInfo (case kw_logger kw of None \<Rightarrow> Logger DEFAULT_LOGGER_NAME | Some l \<Rightarrow> l)
               ''APIKeyFromFile Initialization complete.'']"
  using assms
  by (auto simp add: APIKeyFromFile_init_def BaseAPIKey_init_supplied_key resolved_key_def
      io_defs Let_def)

text \<open>The remote provider never accepts an \<open>api_key\<close> keyword.\<close>

lemma RemoteAPIKey_init_rejects_api_key:
  assumes "kw_api_key kw \<noteq> None"
  shows "\<exists>e. fst (RemoteAPIKey_init w base_url create_key_endpoint kw) = Inl e"
  using assms
  by (auto simp add: RemoteAPIKey_init_def io_defs Let_def split: prod.splits sum.splits)

text \<open>
  C1: a supplied, non-empty \<open>api_key\<close> is adopted unchanged by construction, with no
  fetch and no file or network access. The two providers break this.
  \<open>APIKeyFromFile(api_key='abc')\<close> raises \<open>TypeError\<close> at \<open>Path(None)\<close> (line 132),
  before the base constructor runs. \<open>RemoteAPIKey\<close> given \<open>api_key\<close> with a username
  and a password first posts the credentials (line 286), then raises \<open>TypeError\<close> at
  line 290, where \<open>api_key\<close> is passed twice.
\<close>

theorem C1_supplied_key_not_adopted_by_providers:
  "APIKeyFromFile_init w dflt (no_kwargs\<lparr>kw_api_key := Some (PStr ''abc'')\<rparr>) =
     (Inl (TypeError ''expected str, bytes or os.PathLike object, not NoneType''), [])
   \<and> RemoteAPIKey_init test_world ''http://127.0.0.1:5000'' ''get_api_key''
        (test_credentials\<lparr>kw_api_key := Some (PStr ''abc'')\<rparr>) =
     (Inl (TypeError ''__init__() got multiple values for keyword argument api_key''),
      [HttpPost ''http://127.0.0.1:5000/get_api_key'' ''andrew'' ''pw''])"
  by (simp add: APIKeyFromFile_init_def RemoteAPIKey_init_def construct_full_url_def
      validated_base_url_def RemoteAPIKey_fetch_api_key_def except_ConnectionError_def
      test_defs io_defs Let_def)

section \<open>The file provider\<close>

text \<open>
  C2: when neither the override location nor the instance's location is a file, the
  fetch raises \<open>FileNotFoundError('key file not found')\<close>. The error record is the last
  event, after the \<open>is_file\<close> checks; no file is opened and no value is returned.
\<close>

theorem C2_missing_key_file_raises_not_found:
  assumes "logger self = Some lg"
    and "\<not> (truthy_loc key_location \<and> os_is_file w (loc_str key_location))"
    and "\<not> (truthy_loc (api_key_location self) \<and> os_is_file w (loc_str (api_key_location self)))"
  shows "APIKeyFromFile_fetch_api_key w self key_location =
           (Inl (FileNotFoundError ''key file not found''),
            (if truthy_loc key_location then [IsFile (loc_str key_location)] else [])
            @ (if truthy_loc (api_key_location self)
               then [IsFile (loc_str (api_key_location self))] else [])
            @ [LogError lg (FileNotFoundError ''key file not found'')])"
  using assms
  by (cases key_location; cases "api_key_location self")
     (auto simp add: APIKeyFromFile_fetch_api_key_def check_is_file_def
      raise_key_file_not_found_error_def log_event_def io_defs)

text \<open>C2 at a concrete input: the location \<open>missing.txt\<close> is no file of the test
  world.\<close>

theorem C2_missing_key_file_witness:
  "logger (test_file_obj ''missing.txt'' (PStr ''text'') None) = Some (Logger ''dummy_logger'')
   \<and> \<not> (truthy_loc NoLoc \<and> os_is_file test_world (loc_str NoLoc))
   \<and> \<not> (truthy_loc (api_key_location (test_file_obj ''missing.txt'' (PStr ''text'') None))
        \<and> os_is_file test_world
            (loc_str (api_key_location (test_file_obj ''missing.txt'' (PStr ''text'') None))))
   \<and> APIKeyFromFile_fetch_api_key test_world (test_file_obj ''missing.txt'' (PStr ''text'') None)
        NoLoc =
      (Inl (FileNotFoundError ''key file not found''),
       [IsFile ''missing.txt'',
        LogError (Logger ''dummy_logger'') (FileNotFoundError ''key file not found'')])"
  using C2_missing_key_file_raises_not_found
    [of "test_file_obj ''missing.txt'' (PStr ''text'') None" "Logger ''dummy_logger''" NoLoc
        test_world]
  by (simp add: test_defs)

text \<open>
  What the fetch returns for a key file that exists and can be read. In text mode,
  the contents stripped of surrounding whitespace. In json mode with a non-empty
  \<open>json_key\<close>, the value of that field of the parsed document, and \<open>KeyError\<close> when
  the document has no such field; with no \<open>json_key\<close> (or an empty one), the whole
  parsed document.
\<close>

lemma fetch_returns_file_contents:
  assumes "logger self = Some lg" and "api_key_location self = PathLoc q"
    and "key_path = (if truthy_loc key_location \<and> os_is_file w (loc_str key_location)
                     then key_location else PathLoc q)"
    and "os_is_file w (loc_str key_path)"
    and "os_open w (loc_str key_path) = Inr (Inr content)"
  shows "(file_mode_attr self = PStr ''text'' \<longrightarrow>
            fst (APIKeyFromFile_fetch_api_key w self key_location) = Inr (PStr (py_strip content)))
       \<and> (file_mode_attr self = PStr ''json'' \<and> json_loads w content = Some doc \<and>
            json_key_attr self = Some k \<and> k \<noteq> [] \<longrightarrow>
            (\<forall>kvs v. doc = PDict kvs \<and> map_of kvs k = Some v \<longrightarrow>
               fst (APIKeyFromFile_fetch_api_key w self key_location) = Inr v)
          \<and> (\<forall>kvs. doc = PDict kvs \<and> map_of kvs k = None \<longrightarrow>
               fst (APIKeyFromFile_fetch_api_key w self key_location) = Inl (KeyError k)))
       \<and> (file_mode_attr self = PStr ''json'' \<and> json_loads w content = Some doc \<and>
            \<not> opt_truthy (json_key_attr self) \<longrightarrow>
            fst (APIKeyFromFile_fetch_api_key w self key_location) = Inr doc)"
proof -
  have tl: "truthy_loc key_path"
    using assms(3) by (simp split: if_splits)
  have kp: "key_path = (if truthy_loc key_location \<and> os_is_file w (loc_str key_location)
                        then key_location else api_key_location self)"
    using assms(2,3) by simp
  note opens = fetch_opens_key_path [OF kp tl assms(4)]
  have tcase: "file_mode_attr self = PStr ''text'' \<Longrightarrow>
      fst (APIKeyFromFile_fetch_api_key w self key_location) = Inr (PStr (py_strip content))"
    using opens read_text [OF assms(5)] by simp
  have jcase: "file_mode_attr self = PStr ''json'' \<Longrightarrow> json_loads w content = Some doc \<Longrightarrow>
      fst (APIKeyFromFile_fetch_api_key w self key_location) =
        (if opt_truthy (json_key_attr self) then py_getitem doc (opt_str (json_key_attr self))
         else Inr doc)"
    using opens read_json [OF assms(5) _ assms(2) assms(1)] by simp
  show ?thesis
    using tcase jcase by auto
qed

text \<open>
  When construction reaches the fetch, the resolved key is what the fetch returns. It
  reaches it when no true \<open>api_key\<close> is supplied and the location has the suffix
  \<open>.json\<close> or \<open>.txt\<close>.
\<close>

lemma APIKeyFromFile_init_resolves_fetch:
  assumes "Path (kw_api_key_location kw) = Inr p"
    and "path_suffix p = ''.json'' \<or> path_suffix p = ''.txt''"
    and "\<not> truthy (kwargs_get (kw_api_key kw))"
  shows "resolved_key (APIKeyFromFile_init w dflt kw) =
           fst (APIKeyFromFile_fetch_api_key w
             (new_obj\<lparr>api_key_location := PathLoc p,
                      file_mode_attr := kwargs_get_default (kw_file_mode kw) DEFAULT_FILE_MODE,
                      json_key_attr := kw_json_key kw,
                      logger := Some (case kw_logger kw of
                                        None \<Rightarrow> Logger DEFAULT_LOGGER_NAME | Some l \<Rightarrow> l),
                      api_key := kwargs_get (kw_api_key kw)\<rparr>) NoLoc)"
  using assms
  by (auto simp add: APIKeyFromFile_init_def BaseAPIKey_init_def initialize_logger_def
      ensure_key_location_is_set_def resolved_key_def log_event_def io_defs Let_def
      split: prod.splits sum.splits)

text \<open>So for a key file named \<open>*.json\<close> or \<open>*.txt\<close> that exists and can be read,
  the resolved key is the stripped text, the field of the document, or the document.\<close>

lemma APIKeyFromFile_init_reads_key_file:
  assumes "Path (kw_api_key_location kw) = Inr p"
    and "path_suffix p = ''.json'' \<or> path_suffix p = ''.txt''"
    and "\<not> truthy (kwargs_get (kw_api_key kw))"
    and "os_is_file w p" and "os_open w p = Inr (Inr content)"
  shows "(kwargs_get_default (kw_file_mode kw) DEFAULT_FILE_MODE = PStr ''text'' \<longrightarrow>
            resolved_key (APIKeyFromFile_init w dflt kw) = Inr (PStr (py_strip content)))
       \<and> (kw_file_mode kw = Some (PStr ''json'') \<and> json_loads w content = Some doc \<and>
            kw_json_key kw = Some k \<and> k \<noteq> [] \<longrightarrow>
            (\<forall>kvs v. doc = PDict kvs \<and> map_of kvs k = Some v \<longrightarrow>
               resolved_key (APIKeyFromFile_init w dflt kw) = Inr v)
          \<and> (\<forall>kvs. doc = PDict kvs \<and> map_of kvs k = None \<longrightarrow>
               resolved_key (APIKeyFromFile_init w dflt kw) = Inl (KeyError k)))
       \<and> (kw_file_mode kw = Some (PStr ''json'') \<and> json_loads w content = Some doc \<and>
            \<not> opt_truthy (kw_json_key kw) \<longrightarrow>
            resolved_key (APIKeyFromFile_init w dflt kw) = Inr doc)"
proof -
  let ?self = "new_obj\<lparr>api_key_location := PathLoc p,
                      file_mode_attr := kwargs_get_default (kw_file_mode kw) DEFAULT_FILE_MODE,
                      json_key_attr := kw_json_key kw,
                      logger := Some (case kw_logger kw of
                                        None \<Rightarrow> Logger DEFAULT_LOGGER_NAME | Some l \<Rightarrow> l),
                      api_key := kwargs_get (kw_api_key kw)\<rparr>"
  have built: "resolved_key (APIKeyFromFile_init w dflt kw) =
                 fst (APIKeyFromFile_fetch_api_key w ?self NoLoc)"
    by (rule APIKeyFromFile_init_resolves_fetch [OF assms(1,2,3)])
  have lg: "logger ?self =
              Some (case kw_logger kw of None \<Rightarrow> Logger DEFAULT_LOGGER_NAME | Some l \<Rightarrow> l)"
    by simp
  have loc: "api_key_location ?self = PathLoc p"
    by simp
  have kp: "PathLoc p = (if truthy_loc NoLoc \<and> os_is_file w (loc_str NoLoc)
                          then NoLoc else PathLoc p)"
    by simp
  have isf: "os_is_file w (loc_str (PathLoc p))"
    using assms(4) by simp
  have opn: "os_open w (loc_str (PathLoc p)) = Inr (Inr content)"
    using assms(5) by simp
  note fetched = fetch_returns_file_contents [OF lg loc kp isf opn, of doc k]
  show ?thesis
    unfolding built using fetched by (auto simp add: kwargs_get_default_def)
qed

text \<open>The examples of the specification: \<open>key.txt\<close> holds \<open>"  secret123\n"\<close>, and
  \<open>key.json\<close> holds \<open>{"api_key": "abc", "other": 1}\<close>, read with the field
  \<open>api_key\<close>, with a field it does not have, and with no field.\<close>

lemma APIKeyFromFile_init_reads_key_file_examples:
  "resolved_key (APIKeyFromFile_init test_world NoLoc
      (no_kwargs\<lparr>kw_api_key_location := StrLoc ''key.txt''\<rparr>)) = Inr (PStr ''secret123'')
   \<and> resolved_key (APIKeyFromFile_init test_world NoLoc
      (no_kwargs\<lparr>kw_api_key_location := StrLoc ''key.json'', kw_file_mode := Some (PStr ''json''),
                 kw_json_key := Some ''api_key''\<rparr>)) = Inr (PStr ''abc'')
   \<and> resolved_key (APIKeyFromFile_init test_world NoLoc
      (no_kwargs\<lparr>kw_api_key_location := StrLoc ''key.json'', kw_file_mode := Some (PStr ''json''),
                 kw_json_key := Some ''token''\<rparr>)) = Inl (KeyError ''token'')
   \<and> resolved_key (APIKeyFromFile_init test_world NoLoc
      (no_kwargs\<lparr>kw_api_key_location := StrLoc ''key.json'', kw_file_mode := Some (PStr ''json'')\<rparr>))
      = Inr test_json_doc"
  by (simp add: resolved_key_def APIKeyFromFile_init_def BaseAPIKey_init_def initialize_logger_def
      ensure_key_location_is_set_def APIKeyFromFile_fetch_api_key_def check_is_file_def
      open_file_def read_key_def file_mode_def VALID_FILE_MODES_def except_IOError_def
      json_load_def kwargs_get_def kwargs_get_default_def log_event_def path_suffix_def
      path_name_def py_strip_def py_isspace_def test_defs io_defs Let_def)

text \<open>
  C6: for every key file that exists and can be read, the resolved key should be the
  stripped text (text format), or the field or the whole of the parsed document (json
  format). The fetch does return that (lemma \<open>fetch_returns_file_contents\<close>), and
  construction resolves to it when the file is named \<open>*.json\<close> or \<open>*.txt\<close>. For a
  key file of any other name construction never reaches the fetch: line 138 reads
  \<open>self.logger\<close> before it is assigned. The readable file \<open>secret.key\<close>, declared in
  text format, resolves to no key: construction raises \<open>AttributeError\<close>, and the
  file is not even looked at.
\<close>

theorem C6_key_file_with_other_suffix_is_not_read:
  "os_is_file test_world ''secret.key''
   \<and> os_open test_world ''secret.key'' = Inr (Inr (''  secret123'' @ [CHR 0x0A]))
   \<and> fst (APIKeyFromFile_fetch_api_key test_world (test_file_obj ''secret.key'' (PStr ''text'') None)
        NoLoc) = Inr (PStr ''secret123'')
   \<and> APIKeyFromFile_init test_world NoLoc
        (no_kwargs\<lparr>kw_api_key_location := StrLoc ''secret.key'',
                   kw_file_mode := Some (PStr ''text'')\<rparr>) =
       (Inl (AttributeError ''logger''), [])"
  by (simp add: APIKeyFromFile_init_def APIKeyFromFile_fetch_api_key_def check_is_file_def
      open_file_def read_key_def file_mode_def VALID_FILE_MODES_def except_IOError_def
      log_event_def path_suffix_def path_name_def py_strip_def py_isspace_def
      test_defs io_defs Let_def)

text \<open>A successful construction with no \<open>file_mode\<close> keyword always ends in text
  mode, whatever the suffix of the location.\<close>

lemma APIKeyFromFile_init_default_file_mode:
  assumes "kw_file_mode kw = None" and "fst (APIKeyFromFile_init w dflt kw) = Inr self"
  shows "file_mode_attr self = PStr ''text''"
  using assms
  by (auto simp add: APIKeyFromFile_init_def BaseAPIKey_init_def initialize_logger_def
      ensure_key_location_is_set_def kwargs_get_default_def DEFAULT_FILE_MODE_def log_event_def
      new_obj_def io_defs Let_def
      split: prod.splits sum.splits if_splits)

text \<open>
  C3: with no \<open>file_mode\<close> keyword the mode should follow the suffix. Line 140
  overwrites what lines 133-136 chose: \<open>APIKeyFromFile(api_key_location='key.json')\<close>
  is built in text mode, and its key is the raw text of the file, not the parsed
  document. For any other suffix, line 138 reads \<open>self.logger\<close> before the base
  constructor has assigned it: construction raises \<open>AttributeError\<close>, and no warning
  is logged.
\<close>

theorem C3_suffix_does_not_choose_file_mode:
  "APIKeyFromFile_init test_world NoLoc (no_kwargs\<lparr>kw_api_key_location := StrLoc ''key.json''\<rparr>) =
     (Inr ((test_file_obj ''key.json'' (PStr ''text'') None)\<lparr>api_key := PStr test_json_text\<rparr>),
      [IsFile ''key.json'', OpenFile ''key.json'',
       LogInfo (Logger ''dummy_logger'') ''APIKeyFromFile Initialization complete.''])
   \<and> APIKeyFromFile_init w dflt (no_kwargs\<lparr>kw_api_key_location := StrLoc ''secret.key''\<rparr>) =
     (Inl (AttributeError ''logger''), [])"
  by (simp add: APIKeyFromFile_init_def BaseAPIKey_init_def initialize_logger_def
      ensure_key_location_is_set_def APIKeyFromFile_fetch_api_key_def check_is_file_def
      open_file_def read_key_def file_mode_def VALID_FILE_MODES_def except_IOError_def
      kwargs_get_def kwargs_get_default_def log_event_def path_suffix_def path_name_def
      py_strip_def py_isspace_def test_json_text_def quoted_def test_defs io_defs Let_def)

text \<open>
  C4, as the claim states it, fails: a file provider declared with the format \<open>xml\<close>
  on the existing file \<open>key.txt\<close> is constructed without any error, opens the file, and
  ends with the key \<open>None\<close>.
\<close>

theorem C4_unrecognized_format_counterexample:
  "APIKeyFromFile_init test_world NoLoc
     (no_kwargs\<lparr>kw_api_key_location := StrLoc ''key.txt'', kw_file_mode := Some (PStr ''xml'')\<rparr>) =
     (Inr ((test_file_obj ''key.txt'' (PStr ''xml'') None)\<lparr>api_key := PNone\<rparr>),
      [IsFile ''key.txt'', OpenFile ''key.txt'',
       LogInfo (Logger ''dummy_logger'') ''APIKeyFromFile Initialization complete.''])"
  by (simp add: APIKeyFromFile_init_def BaseAPIKey_init_def initialize_logger_def
      ensure_key_location_is_set_def APIKeyFromFile_fetch_api_key_def check_is_file_def
      open_file_def read_key_def file_mode_def VALID_FILE_MODES_def except_IOError_def
      kwargs_get_def kwargs_get_default_def log_event_def path_suffix_def path_name_def
      test_defs io_defs Let_def)

text \<open>
  C4, amended: a format \<open>m\<close> that is neither \<open>text\<close> nor \<open>json\<close> raises no error
  of its own. The property \<open>file_mode\<close> is \<open>None\<close>; a fetch under it never returns
  anything but \<open>None\<close>; when the instance's location is a file that opens, the fetch
  opens it and returns \<open>None\<close> without reading it. A construction with that format
  and no true \<open>api_key\<close> never resolves to anything but \<open>None\<close>; and it does resolve
  to \<open>None\<close>, with no error, when its location has the suffix \<open>.json\<close> or \<open>.txt\<close>
  and is a file that opens.
\<close>

theorem C4_unrecognized_format_yields_none:
  assumes "m \<noteq> PStr ''text''" and "m \<noteq> PStr ''json''"
  shows "(file_mode_attr self = m \<longrightarrow> file_mode self = (Inr PNone, []))
       \<and> (file_mode_attr self = m \<longrightarrow>
            (\<forall>v. fst (APIKeyFromFile_fetch_api_key w self key_location) = Inr v \<longrightarrow> v = PNone))
       \<and> (file_mode_attr self = m \<and> api_key_location self = PathLoc p \<and> os_is_file w p \<and>
            os_open w p = Inr f \<longrightarrow>
            APIKeyFromFile_fetch_api_key w self NoLoc = (Inr PNone, [IsFile p, OpenFile p]))
       \<and> (kw_file_mode kw = Some m \<and> \<not> truthy (kwargs_get (kw_api_key kw)) \<longrightarrow>
            (\<forall>v. resolved_key (APIKeyFromFile_init w dflt kw) = Inr v \<longrightarrow> v = PNone))
       \<and> (kw_file_mode kw = Some m \<and> \<not> truthy (kwargs_get (kw_api_key kw)) \<and>
            Path (kw_api_key_location kw) = Inr q \<and>
            (path_suffix q = ''.json'' \<or> path_suffix q = ''.txt'') \<and>
            os_is_file w q \<and> os_open w q = Inr g \<longrightarrow>
            resolved_key (APIKeyFromFile_init w dflt kw) = Inr PNone)"
proof -
  have fm: "file_mode s = (Inr PNone, [])" if "file_mode_attr s = m" for s
    using assms that by (intro file_mode_unrecognized) simp_all
  have only_none: "v = PNone"
    if "file_mode_attr s = m" and "fst (APIKeyFromFile_fetch_api_key w s l) = Inr v" for s l v
    using that(2) fm [OF that(1)]
    by (auto simp add: APIKeyFromFile_fetch_api_key_def check_is_file_def open_file_def
        read_key_def except_IOError_def raise_key_file_not_found_error_def log_event_def
        io_defs split: prod.splits sum.splits if_splits option.splits)
  have opened: "APIKeyFromFile_fetch_api_key w s NoLoc = (Inr PNone, [IsFile p', OpenFile p'])"
    if "file_mode_attr s = m" and "api_key_location s = PathLoc p'" and "os_is_file w p'"
      and "os_open w p' = Inr f'" for s p' f'
    using that(2,3,4) fm [OF that(1)]
    by (simp add: APIKeyFromFile_fetch_api_key_def check_is_file_def open_file_def read_key_def
        except_IOError_def io_defs)
  have built_none: "v = PNone"
    if "kw_file_mode kw = Some m" and "\<not> truthy (kwargs_get (kw_api_key kw))"
      and "resolved_key (APIKeyFromFile_init w dflt kw) = Inr v" for v
  proof -
    from that(3) obtain q' where q': "Path (kw_api_key_location kw) = Inr q'"
      by (cases "Path (kw_api_key_location kw)")
         (simp_all add: resolved_key_def APIKeyFromFile_init_def io_defs)
    from that(3) q' have sfx: "path_suffix q' = ''.json'' \<or> path_suffix q' = ''.txt''"
      by (auto simp add: resolved_key_def APIKeyFromFile_init_def log_event_def new_obj_def
          io_defs Let_def split: if_splits)
    show ?thesis
      using that(3) that(1)
      unfolding APIKeyFromFile_init_resolves_fetch [OF q' sfx that(2)]
      by (intro only_none [of _ NoLoc v]) (simp_all add: kwargs_get_default_def)
  qed
  have built: "resolved_key (APIKeyFromFile_init w dflt kw) = Inr PNone"
    if "kw_file_mode kw = Some m" and "\<not> truthy (kwargs_get (kw_api_key kw))"
      and "Path (kw_api_key_location kw) = Inr q"
      and "path_suffix q = ''.json'' \<or> path_suffix q = ''.txt''"
      and "os_is_file w q" and "os_open w q = Inr g"
    unfolding APIKeyFromFile_init_resolves_fetch [OF that(3) that(4) that(2)]
    using that(1) that(5) that(6)
    by (subst opened [where p' = q and f' = g]) (simp_all add: kwargs_get_default_def)
  show ?thesis
    using fm only_none opened built_none built by blast
qed

text \<open>C4, amended, at a concrete input: the format \<open>xml\<close> on the file \<open>key.txt\<close>.\<close>

theorem C4_unrecognized_format_witness:
  "PStr ''xml'' \<noteq> PStr ''text'' \<and> PStr ''xml'' \<noteq> PStr ''json''
   \<and> os_is_file test_world ''key.txt''
   \<and> file_mode (test_file_obj ''key.txt'' (PStr ''xml'') None) = (Inr PNone, [])
   \<and> APIKeyFromFile_fetch_api_key test_world (test_file_obj ''key.txt'' (PStr ''xml'') None) NoLoc =
       (Inr PNone, [IsFile ''key.txt'', OpenFile ''key.txt''])
   \<and> resolved_key (APIKeyFromFile_init test_world NoLoc
        (no_kwargs\<lparr>kw_api_key_location := StrLoc ''key.txt'', kw_file_mode := Some (PStr ''xml'')\<rparr>))
      = Inr PNone"
  using C4_unrecognized_format_yields_none
    [where m = "PStr ''xml''" and self = "test_file_obj ''key.txt'' (PStr ''xml'') None"
       and p = "''key.txt''" and w = test_world and f = "Inr (''  secret123'' @ [CHR 0x0A])"
       and key_location = NoLoc
       and kw = "no_kwargs\<lparr>kw_api_key_location := StrLoc ''key.txt'',
                           kw_file_mode := Some (PStr ''xml'')\<rparr>"
       and q = "''key.txt''" and g = "Inr (''  secret123'' @ [CHR 0x0A])" and dflt = NoLoc]
  by (simp add: test_defs kwargs_get_def path_suffix_def path_name_def)

text \<open>Once \<open>__init__\<close> has wrapped the location in a \<open>Path\<close>, the location is true:
  \<open>_ensure_key_location_is_set\<close> changes nothing and cannot raise.\<close>

lemma ensure_key_location_is_set_Path:
  assumes "api_key_location self = PathLoc p"
  shows "ensure_key_location_is_set dflt self = (Inr self, [])"
  using assms by (simp add: ensure_key_location_is_set_def io_defs)

text \<open>
  C5: with no location supplied, construction should fall back to
  \<open>DEFAULT_KEY_LOCATION\<close>, or fail with the error of \<open>_ensure_key_location_is_set\<close>
  when there is none. It does neither: \<open>Path(None)\<close> (line 132) raises \<open>TypeError\<close>
  first, whatever the class default, the other keywords and the world are.
\<close>

theorem C5_no_location_raises_TypeError:
  "APIKeyFromFile_init w dflt (kw\<lparr>kw_api_key_location := NoLoc\<rparr>) =
     (Inl (TypeError ''expected str, bytes or os.PathLike object, not NoneType''), [])"
  by (simp add: APIKeyFromFile_init_def io_defs)

section \<open>The remote provider\<close>

text \<open>What construction resolves to after a successful fetch: the parsed body, or its
  \<open>api_key\<close> field when the body is a dict, if that value is true; else the
  \<open>TypeError\<close> of the second, argument-less call of \<open>_fetch_api_key\<close>.\<close>

lemma RemoteAPIKey_init_fetched:
  assumes "base_url = [] \<or> validators_url w base_url"
    and "opt_truthy (kw_username kw)" and "opt_truthy (kw_password kw)"
    and "kw_api_key kw = None"
    and "requests_post w ((if base_url = [] then ''None'' else base_url) @ ''/'' @ ep)
           (opt_str (kw_username kw)) (opt_str (kw_password kw)) = Inr r"
    and "resp_ok r" and "resp_json r = Some v"
  shows "resolved_key (RemoteAPIKey_init w base_url ep kw) =
           (if truthy (case v of PDict kvs \<Rightarrow> dict_get kvs ''api_key'' | _ \<Rightarrow> v)
            then Inr (case v of PDict kvs \<Rightarrow> dict_get kvs ''api_key'' | _ \<Rightarrow> v)
            else Inl (TypeError
              ''_fetch_api_key() missing 2 required positional arguments: username and password''))"
  using assms
  by (cases v; cases "base_url = []")
     (simp_all add: RemoteAPIKey_init_def construct_full_url_ok RemoteAPIKey_fetch_api_key_def
      except_ConnectionError_def BaseAPIKey_init_def initialize_logger_def kwargs_get_def
      log_event_def resolved_key_def io_defs Let_def)

lemma RemoteAPIKey_init_no_credentials:
  assumes "base_url = [] \<or> validators_url w base_url" and "kw_api_key kw = None"
    and "\<not> (opt_truthy (kw_username kw) \<and> opt_truthy (kw_password kw))"
  shows "RemoteAPIKey_init w base_url ep kw =
           (Inl (TypeError
              ''_fetch_api_key() missing 2 required positional arguments: username and password''),
            [])"
  using assms
  by (cases "base_url = []")
     (auto simp add: RemoteAPIKey_init_def construct_full_url_ok BaseAPIKey_init_def
      initialize_logger_def kwargs_get_def log_event_def io_defs Let_def)

lemma RemoteAPIKey_init_truthy:
  assumes "fst (RemoteAPIKey_init w base_url ep kw) = Inr self"
  shows "truthy (api_key self)"
  using assms
  by (auto simp add: RemoteAPIKey_init_def BaseAPIKey_init_def initialize_logger_def
      kwargs_get_def log_event_def io_defs Let_def
      split: prod.splits sum.splits if_splits pyval.splits)

text \<open>
  C7, as the claim states it, fails: the server answers the endpoint \<open>numeric_key\<close>
  with status 200 and the body \<open>{"api_key": 123}\<close>; construction completes, and the
  resolved key is the integer 123, not a string.
\<close>

theorem C7_resolved_key_not_a_string_counterexample:
  "resolved_key (RemoteAPIKey_init test_world ''http://127.0.0.1:5000'' ''numeric_key''
     test_credentials) = Inr (PInt 123)
   \<and> \<not> is_str (PInt 123)"
  by (simp add: resolved_key_def RemoteAPIKey_init_def construct_full_url_def
      validated_base_url_def RemoteAPIKey_fetch_api_key_def except_ConnectionError_def
      BaseAPIKey_init_def initialize_logger_def kwargs_get_def dict_get_def log_event_def
      test_defs io_defs Let_def)

text \<open>
  C7, amended: take a construction that is passed no \<open>api_key\<close> keyword and whose
  fetch succeeds: the base URL passed validation (or is empty), the username and the
  password are not empty, the response is ok and its body parses to \<open>v\<close>. A non-empty
  string \<open>v\<close> is the resolved key; when \<open>v\<close> is a dict whose \<open>api_key\<close> field holds a
  true value, that value is the resolved key, whatever its type, and the rest of the
  dict is dropped; any other true \<open>v\<close> is the resolved key as it is. So the resolved key
  is a string when the body, or its \<open>api_key\<close> field, is a non-empty string.
\<close>

theorem C7_resolved_key_after_successful_fetch:
  assumes "base_url = [] \<or> validators_url w base_url"
    and "opt_truthy (kw_username kw)" and "opt_truthy (kw_password kw)"
    and "kw_api_key kw = None"
    and "requests_post w ((if base_url = [] then ''None'' else base_url) @ ''/'' @ ep)
           (opt_str (kw_username kw)) (opt_str (kw_password kw)) = Inr r"
    and "resp_ok r" and "resp_json r = Some v"
  shows "(\<forall>s. v = PStr s \<and> s \<noteq> [] \<longrightarrow>
            resolved_key (RemoteAPIKey_init w base_url ep kw) = Inr (PStr s))
       \<and> (\<forall>kvs x. v = PDict kvs \<and> map_of kvs ''api_key'' = Some x \<and> truthy x \<longrightarrow>
            resolved_key (RemoteAPIKey_init w base_url ep kw) = Inr x)
       \<and> ((\<forall>kvs. v \<noteq> PDict kvs) \<and> truthy v \<longrightarrow>
            resolved_key (RemoteAPIKey_init w base_url ep kw) = Inr v)"
proof -
  have res: "resolved_key (RemoteAPIKey_init w base_url ep kw) =
           (if truthy (case v of PDict kvs \<Rightarrow> dict_get kvs ''api_key'' | _ \<Rightarrow> v)
            then Inr (case v of PDict kvs \<Rightarrow> dict_get kvs ''api_key'' | _ \<Rightarrow> v)
            else Inl (TypeError
              ''_fetch_api_key() missing 2 required positional arguments: username and password''))"
    using assms by (rule RemoteAPIKey_init_fetched)
  show ?thesis
    unfolding res by (cases v) (auto simp add: dict_get_def)
qed

text \<open>C7, amended, at concrete inputs: the body \<open>{"api_key": "xyz"}\<close> of the endpoint
  \<open>get_api_key\<close> and the bare string \<open>"xyz"\<close> of the endpoint \<open>bare_key\<close> both
  resolve to \<open>xyz\<close>.\<close>

theorem C7_resolved_key_witness:
  "validators_url test_world ''http://127.0.0.1:5000''
   \<and> opt_truthy (kw_username test_credentials)
   \<and> opt_truthy (kw_password test_credentials)
   \<and> kw_api_key test_credentials = None
   \<and> resolved_key (RemoteAPIKey_init test_world ''http://127.0.0.1:5000'' ''get_api_key''
        test_credentials) = Inr (PStr ''xyz'')
   \<and> resolved_key (RemoteAPIKey_init test_world ''http://127.0.0.1:5000'' ''bare_key''
        test_credentials) = Inr (PStr ''xyz'')"
  using
    C7_resolved_key_after_successful_fetch
      [where base_url = "''http://127.0.0.1:5000''" and w = test_world and kw = test_credentials
         and ep = "''get_api_key''"
         and r = "\<lparr>status_code = 200,
                    resp_text = ''{'' @ quoted ''api_key'' @ '': '' @ quoted ''xyz'' @ ''}'',
                    resp_json = Some (PDict [(''api_key'', PStr ''xyz'')])\<rparr>"
         and v = "PDict [(''api_key'', PStr ''xyz'')]"]
    C7_resolved_key_after_successful_fetch
      [where base_url = "''http://127.0.0.1:5000''" and w = test_world and kw = test_credentials
         and ep = "''bare_key''"
         and r = "\<lparr>status_code = 200, resp_text = quoted ''xyz'',
                    resp_json = Some (PStr ''xyz'')\<rparr>"
         and v = "PStr ''xyz''"]
  by (simp add: test_defs)

text \<open>
  C8: a non-empty base URL that \<open>validators.url\<close> does not accept should make
  construction raise the error \<open>Invalid URL\<close>. Construction does fail there, and
  before any request is sent (the list of events is empty), but not with that error:
  line 319 calls \<open>validators.ValidationError\<close> with one argument, the constructor needs
  two, and the call raises \<open>TypeError\<close>.
\<close>

theorem C8_invalid_base_url_raises_TypeError:
  assumes "base_url \<noteq> []" and "\<not> validators_url w base_url"
  shows "RemoteAPIKey_init w base_url create_key_endpoint kw =
           (Inl (TypeError
              ''ValidationError.__init__() missing 1 required positional argument: arg_dict''),
            [])"
  using assms
  by (simp add: RemoteAPIKey_init_def construct_full_url_def validated_base_url_def
      validators_ValidationError_def raise_new_def io_defs Let_def)

text \<open>C8 at a concrete input: the base URL \<open>not a url\<close>.\<close>

theorem C8_invalid_base_url_witness:
  "''not a url'' \<noteq> [] \<and> \<not> validators_url test_world ''not a url''
   \<and> RemoteAPIKey_init test_world ''not a url'' ''get_api_key'' test_credentials =
       (Inl (TypeError
          ''ValidationError.__init__() missing 1 required positional argument: arg_dict''),
        [])"
  using C8_invalid_base_url_raises_TypeError
    [of "''not a url''" test_world "''get_api_key''" test_credentials]
  by (simp add: test_defs)

text \<open>
  C9, as the claim states it, fails: the status 300 is not a successful one, but
  \<open>response.ok\<close> is true for it. The server answers the endpoint \<open>choices\<close> with
  status 300 and the body \<open>{"api_key": "xyz"}\<close>: the fetch raises nothing and returns
  the parsed body, and construction completes with the key \<open>xyz\<close>.
\<close>

theorem C9_status_300_counterexample:
  "requests_post test_world ''http://127.0.0.1:5000/choices'' ''andrew'' ''pw'' =
     Inr \<lparr>status_code = 300,
          resp_text = ''{'' @ quoted ''api_key'' @ '': '' @ quoted ''xyz'' @ ''}'',
          resp_json = Some (PDict [(''api_key'', PStr ''xyz'')])\<rparr>
   \<and> RemoteAPIKey_fetch_api_key test_world
        (new_obj\<lparr>full_url_attr := ''http://127.0.0.1:5000/choices''\<rparr>) ''andrew'' ''pw'' =
       (Inr (PDict [(''api_key'', PStr ''xyz'')]),
        [HttpPost ''http://127.0.0.1:5000/choices'' ''andrew'' ''pw''])
   \<and> resolved_key (RemoteAPIKey_init test_world ''http://127.0.0.1:5000'' ''choices''
        test_credentials) = Inr (PStr ''xyz'')"
  by (simp add: resolved_key_def RemoteAPIKey_init_def construct_full_url_def
      validated_base_url_def RemoteAPIKey_fetch_api_key_def except_ConnectionError_def
      BaseAPIKey_init_def initialize_logger_def kwargs_get_def dict_get_def log_event_def
      test_defs io_defs Let_def)

text \<open>
  C9, amended: when the status of the response is from 400 to 599, the statuses for
  which \<open>response.ok\<close> is false, the fetch raises \<open>RequestException(response.text)\<close>;
  the handler of \<open>ConnectionError\<close> lets it through, and a construction with a
  non-empty base URL that passed validation and a non-empty username and password
  ends in the same exception. For any other status, 2xx or not, a body that parses as
  JSON is returned and nothing is raised.
\<close>

theorem C9_error_status_raises_request_exception:
  assumes "requests_post w (full_url_attr self) username password = Inr r"
  shows "(400 \<le> status_code r \<and> status_code r < 600 \<longrightarrow>
            RemoteAPIKey_fetch_api_key w self username password =
              (Inl (RequestException (resp_text r)),
               [HttpPost (full_url_attr self) username password]))
       \<and> (400 \<le> status_code r \<and> status_code r < 600 \<and>
            base_url \<noteq> [] \<and> validators_url w base_url \<and>
            full_url_attr self = base_url @ ''/'' @ ep \<and>
            kw_username kw = Some username \<and> username \<noteq> [] \<and>
            kw_password kw = Some password \<and> password \<noteq> []
           \<longrightarrow> RemoteAPIKey_init w base_url ep kw =
               (Inl (RequestException (resp_text r)),
                [HttpPost (base_url @ ''/'' @ ep) username password]))
       \<and> ((status_code r < 400 \<or> 600 \<le> status_code r) \<and> resp_json r = Some v \<longrightarrow>
            RemoteAPIKey_fetch_api_key w self username password =
              (Inr v, [HttpPost (full_url_attr self) username password]))"
  using assms
  by (auto simp add: RemoteAPIKey_init_def construct_full_url_ok RemoteAPIKey_fetch_api_key_def
      except_ConnectionError_def resp_ok_def io_defs Let_def)

text \<open>C9, amended, at concrete inputs: a wrong password, answered with status 401 and
  the body \<open>bad creds\<close>; and the status 300 of the endpoint \<open>choices\<close>.\<close>

theorem C9_error_status_witness:
  "requests_post test_world ''http://127.0.0.1:5000/get_api_key'' ''andrew'' ''wrong'' =
     Inr \<lparr>status_code = 401, resp_text = ''bad creds'', resp_json = None\<rparr>
   \<and> RemoteAPIKey_fetch_api_key test_world
        (new_obj\<lparr>full_url_attr := ''http://127.0.0.1:5000/get_api_key''\<rparr>) ''andrew'' ''wrong'' =
       (Inl (RequestException ''bad creds''),
        [HttpPost ''http://127.0.0.1:5000/get_api_key'' ''andrew'' ''wrong''])
   \<and> RemoteAPIKey_init test_world ''http://127.0.0.1:5000'' ''get_api_key''
        (test_credentials\<lparr>kw_password := Some ''wrong''\<rparr>) =
       (Inl (RequestException ''bad creds''),
        [HttpPost ''http://127.0.0.1:5000/get_api_key'' ''andrew'' ''wrong''])
   \<and> RemoteAPIKey_fetch_api_key test_world
        (new_obj\<lparr>full_url_attr := ''http://127.0.0.1:5000/choices''\<rparr>) ''andrew'' ''pw'' =
       (Inr (PDict [(''api_key'', PStr ''xyz'')]),
        [HttpPost ''http://127.0.0.1:5000/choices'' ''andrew'' ''pw''])"
  using
    C9_error_status_raises_request_exception
      [where w = test_world
         and self = "new_obj\<lparr>full_url_attr := ''http://127.0.0.1:5000/get_api_key''\<rparr>"
         and username = "''andrew''" and password = "''wrong''"
         and r = "\<lparr>status_code = 401, resp_text = ''bad creds'', resp_json = None\<rparr>"
         and base_url = "''http://127.0.0.1:5000''" and ep = "''get_api_key''"
         and kw = "test_credentials\<lparr>kw_password := Some ''wrong''\<rparr>"]
    C9_error_status_raises_request_exception
      [where w = test_world
         and self = "new_obj\<lparr>full_url_attr := ''http://127.0.0.1:5000/choices''\<rparr>"
         and username = "''andrew''" and password = "''pw''"
         and r = "\<lparr>status_code = 300,
                    resp_text = ''{'' @ quoted ''api_key'' @ '': '' @ quoted ''xyz'' @ ''}'',
                    resp_json = Some (PDict [(''api_key'', PStr ''xyz'')])\<rparr>"
         and v = "PDict [(''api_key'', PStr ''xyz'')]"]
  by (simp add: test_defs)

text \<open>
  C10: a direct construction of the remote provider whose key is false after lines
  286-288 ends in the \<open>TypeError\<close> of \<open>self._fetch_api_key()\<close> called with no
  arguments by \<open>_BaseAPIKey.__init__\<close>: when the username or the password is missing
  (and then no request is sent), and when the response is a dict with no \<open>api_key\<close>
  field (both for a base URL that is valid, or empty). No construction at all
  completes with a false key.
\<close>

theorem C10_remote_never_completes_with_falsy_key:
  "((base_url = [] \<or> validators_url w base_url) \<and> kw_api_key kw = None \<and>
      \<not> (opt_truthy (kw_username kw) \<and> opt_truthy (kw_password kw)) \<longrightarrow>
      RemoteAPIKey_init w base_url ep kw =
        (Inl (TypeError
           ''_fetch_api_key() missing 2 required positional arguments: username and password''),
         []))
   \<and> ((base_url = [] \<or> validators_url w base_url) \<and> kw_api_key kw = None \<and>
      opt_truthy (kw_username kw) \<and> opt_truthy (kw_password kw) \<and>
      requests_post w ((if base_url = [] then ''None'' else base_url) @ ''/'' @ ep)
        (opt_str (kw_username kw)) (opt_str (kw_password kw)) = Inr r \<and>
      resp_ok r \<and> resp_json r = Some (PDict kvs) \<and> map_of kvs ''api_key'' = None \<longrightarrow>
      resolved_key (RemoteAPIKey_init w base_url ep kw) =
        Inl (TypeError
           ''_fetch_api_key() missing 2 required positional arguments: username and password''))
   \<and> (\<forall>self. fst (RemoteAPIKey_init w base_url ep kw) = Inr self \<longrightarrow> truthy (api_key self))"
proof -
  have no_doc_key: "resolved_key (RemoteAPIKey_init w base_url ep kw) =
              Inl (TypeError
                 ''_fetch_api_key() missing 2 required positional arguments: username and password'')"
    if "base_url = [] \<or> validators_url w base_url" and "kw_api_key kw = None"
      and "opt_truthy (kw_username kw)" and "opt_truthy (kw_password kw)"
      and "requests_post w ((if base_url = [] then ''None'' else base_url) @ ''/'' @ ep)
              (opt_str (kw_username kw)) (opt_str (kw_password kw)) = Inr r"
      and "resp_ok r" and "resp_json r = Some (PDict kvs)" and "map_of kvs ''api_key'' = None"
    using RemoteAPIKey_init_fetched [OF that(1) that(3) that(4) that(2) that(5) that(6) that(7)]
      that(8)
    by (simp add: dict_get_def)
  have no_credentials: "RemoteAPIKey_init w base_url ep kw =
        (Inl (TypeError
           ''_fetch_api_key() missing 2 required positional arguments: username and password''),
         [])"
    if "base_url = [] \<or> validators_url w base_url" and "kw_api_key kw = None"
      and "\<not> (opt_truthy (kw_username kw) \<and> opt_truthy (kw_password kw))"
    using that by (rule RemoteAPIKey_init_no_credentials)
  have completed: "truthy (api_key self)"
    if "fst (RemoteAPIKey_init w base_url ep kw) = Inr self" for self
    using that by (rule RemoteAPIKey_init_truthy)
  show ?thesis
  proof (intro conjI impI allI)
    assume "(base_url = [] \<or> validators_url w base_url) \<and> kw_api_key kw = None \<and>
      \<not> (opt_truthy (kw_username kw) \<and> opt_truthy (kw_password kw))"
    then show "RemoteAPIKey_init w base_url ep kw =
        (Inl (TypeError
           ''_fetch_api_key() missing 2 required positional arguments: username and password''),
         [])"
      using no_credentials by simp
  next
    assume "(base_url = [] \<or> validators_url w base_url) \<and> kw_api_key kw = None \<and>
      opt_truthy (kw_username kw) \<and> opt_truthy (kw_password kw) \<and>
      requests_post w ((if base_url = [] then ''None'' else base_url) @ ''/'' @ ep)
        (opt_str (kw_username kw)) (opt_str (kw_password kw)) = Inr r \<and>
      resp_ok r \<and> resp_json r = Some (PDict kvs) \<and> map_of kvs ''api_key'' = None"
    then show "resolved_key (RemoteAPIKey_init w base_url ep kw) =
        Inl (TypeError
           ''_fetch_api_key() missing 2 required positional arguments: username and password'')"
      using no_doc_key by simp
  next
    fix self
    assume "fst (RemoteAPIKey_init w base_url ep kw) = Inr self"
    then show "truthy (api_key self)"
      by (rule completed)
  qed
qed

text \<open>C10 at concrete inputs: no password; and the endpoint \<open>no_key\<close>, which answers
  \<open>{"token": "xyz"}\<close>.\<close>

theorem C10_remote_falsy_key_witness:
  "validators_url test_world ''http://127.0.0.1:5000''
   \<and> kw_api_key test_credentials = None
   \<and> \<not> opt_truthy (kw_password (no_kwargs\<lparr>kw_username := Some ''andrew''\<rparr>))
   \<and> RemoteAPIKey_init test_world ''http://127.0.0.1:5000'' ''get_api_key''
        (no_kwargs\<lparr>kw_username := Some ''andrew''\<rparr>) =
       (Inl (TypeError
          ''_fetch_api_key() missing 2 required positional arguments: username and password''),
        [])
   \<and> resolved_key (RemoteAPIKey_init test_world ''http://127.0.0.1:5000'' ''no_key''
        test_credentials) =
       Inl (TypeError
          ''_fetch_api_key() missing 2 required positional arguments: username and password'')"
  using
    C10_remote_never_completes_with_falsy_key
      [where base_url = "''http://127.0.0.1:5000''" and w = test_world
         and kw = "no_kwargs\<lparr>kw_username := Some ''andrew''\<rparr>" and ep = "''get_api_key''"]
    C10_remote_never_completes_with_falsy_key
      [where base_url = "''http://127.0.0.1:5000''" and w = test_world
         and kw = test_credentials and ep = "''no_key''"
         and r = "\<lparr>status_code = 200,
                    resp_text = ''{'' @ quoted ''token'' @ '': '' @ quoted ''xyz'' @ ''}'',
                    resp_json = Some (PDict [(''token'', PStr ''xyz'')])\<rparr>"
         and kvs = "[(''token'', PStr ''xyz'')]"]
  by (simp add: test_defs)

end
